theory Spec2Isabelle
  imports Complex_Main "HOL-Library.FSet" "HOL-Library.Sublist"
begin

text \<open>
  A task service in two parts. The API validates a task-creation request, gives the
  task an identifier and sends it to a FIFO queue; the processor receives batches of
  queue records, skips the tasks it has processed before, and reports the records
  that failed. The theory embeds the request validation, the endpoint, the API key
  middleware and the batch handler, and proves what the specification says about them.
\<close>

section \<open>Python values\<close>

text \<open>
  The consumer decodes each message body with \<^verbatim>\<open>json.loads\<close>; the result is one of
  the Python values a JSON document can denote. A finite float is the rational it
  stands for (Python compares \<^verbatim>\<open>int\<close> and \<^verbatim>\<open>float\<close> exactly); the decoder
  also produces the three special floats. A \<^verbatim>\<open>dict\<close> decoded from JSON has string
  keys; it is an association list read with \<^const>\<open>map_of\<close>. A \<^verbatim>\<open>str\<close> is a
  sequence of code points; \<open>string\<close> holds the code points below 256.
\<close>

datatype pyfloat = Finite rat | PosInf | NegInf | NaN

datatype pyval =
    PNone
  | PBool bool
  | PInt int
  | PFloat pyfloat
  | PStr string
  | PList "pyval list"
  | PDict "(string \<times> pyval) list"

text \<open>The exceptions that occur in the modelled code.\<close>

datatype exn =
    JSONDecodeError
  | KeyError
  | AttributeError
  | TypeError
  | ValueError
  | RecursionError

text \<open>
  \<^verbatim>\<open>d.get(key, default)\<close> on a value: only a \<^verbatim>\<open>dict\<close> has the method, every other
  decoded value (list, string, number, \<^verbatim>\<open>None\<close>) raises \<^verbatim>\<open>AttributeError\<close>. A key
  that is present with the value \<^verbatim>\<open>null\<close> yields \<^verbatim>\<open>None\<close>, not the default.
\<close>

fun py_get :: "pyval \<Rightarrow> string \<Rightarrow> pyval \<Rightarrow> exn + pyval" where
  "py_get (PDict d) k dflt = Inr (case map_of d k of None \<Rightarrow> dflt | Some v \<Rightarrow> v)"
| "py_get _ k dflt = Inl AttributeError"

text \<open>
  Membership in and insertion into a Python \<^verbatim>\<open>set\<close> go through \<^verbatim>\<open>hash\<close> and
  \<^verbatim>\<open>==\<close>. Lists and dicts are unhashable (\<^verbatim>\<open>TypeError\<close>). Among the hashable
  decoded values, \<^verbatim>\<open>True == 1 == 1.0\<close> and \<^verbatim>\<open>False == 0 == 0.0\<close> with equal hashes,
  strings equal strings only, \<^verbatim>\<open>None\<close> equals itself only. \<open>set_key\<close> maps a value
  to the representative of its equality class, so that a Python set of decoded values
  is the finite set of their keys. (The decoder returns one and the same object for
  every \<^verbatim>\<open>NaN\<close>, which a set finds again by identity.)
\<close>

datatype hkey = HNone | HNum pyfloat | HStr string

fun set_key :: "pyval \<Rightarrow> exn + hkey" where
  "set_key PNone = Inr HNone"
| "set_key (PBool b) = Inr (HNum (Finite (if b then 1 else 0)))"
| "set_key (PInt i) = Inr (HNum (Finite (of_int i)))"
| "set_key (PFloat f) = Inr (HNum f)"
| "set_key (PStr s) = Inr (HStr s)"
| "set_key (PList xs) = Inl TypeError"
| "set_key (PDict d) = Inl TypeError"

section \<open>The queue processor\<close>

text \<open>
  An SQS record as the handler reads it: every key is read with \<^verbatim>\<open>record.get\<close> and a
  default, so each may be absent. The queue delivers \<^verbatim>\<open>messageId\<close>,
  \<^verbatim>\<open>receiptHandle\<close> and \<^verbatim>\<open>body\<close> as strings and \<^verbatim>\<open>attributes\<close> as a dict of strings.
\<close>

record sqs_record =
  messageId :: "string option"
  receiptHandle :: "string option"
  body :: "string option"
  attributes :: "(string \<times> string) list option"

record sqs_event =
  Records :: "sqs_record list option"

record batch_item_failure =
  itemIdentifier :: string

record batch_response =
  batchItemFailures :: "batch_item_failure list"

text \<open>
  \<^verbatim>\<open>processed_tasks\<close>, the module-level set of processed task ids. It is created
  empty when the module is loaded and passed through every call explicitly.
\<close>

type_synonym registry = "hkey fset"

definition processed_tasks_init :: registry where
  "processed_tasks_init = {||}"

text \<open>
  \<^verbatim>\<open>process_task\<close>: read the task id (default \<^verbatim>\<open>"unknown"\<close>), return at once when
  it is in the set, otherwise add it. Logging has no effect on the result. The
  membership test raises \<^verbatim>\<open>TypeError\<close> on an unhashable id, before the set changes.
\<close>

definition process_task :: "registry \<Rightarrow> pyval \<Rightarrow> exn + registry" where
  "process_task processed_tasks task_data =
     (case py_get task_data ''task_id'' (PStr ''unknown'') of
        Inl e \<Rightarrow> Inl e
      | Inr task_id \<Rightarrow>
          (case set_key task_id of
             Inl e \<Rightarrow> Inl e
           | Inr k \<Rightarrow>
               if k |\<in>| processed_tasks then Inr processed_tasks
               else Inr (finsert k processed_tasks)))"

text \<open>
  The body of the \<^verbatim>\<open>try\<close> block of \<^verbatim>\<open>lambda_handler\<close> for one record. The decoder
  \<^verbatim>\<open>json.loads\<close> is library code and a parameter of the model: \<open>loads\<close> returns the
  decoded value or the exception it raises. \<open>task_data\<close> is a local variable of the
  handler: it is unbound (\<open>None\<close>) until the first assignment, and when the decoder
  raises it keeps the value that an earlier record gave it. The block returns what it
  does to the set, or the exception it raises, and the variable as it leaves it.
\<close>

definition message_body_of :: "sqs_record \<Rightarrow> string" where
  "message_body_of record = (case body record of None \<Rightarrow> ''{}'' | Some b \<Rightarrow> b)"

definition try_record ::
  "(string \<Rightarrow> exn + pyval) \<Rightarrow> registry \<Rightarrow> pyval option \<Rightarrow> sqs_record
     \<Rightarrow> (exn + registry) \<times> pyval option" where
  "try_record loads processed_tasks task_data record =
     (case loads (message_body_of record) of
        Inl e \<Rightarrow> (Inl e, task_data)
      | Inr task_data' \<Rightarrow>
          (case py_get task_data' ''task_id'' (PStr ''unknown'') of
             Inl e \<Rightarrow> (Inl e, Some task_data')
           | Inr task_id \<Rightarrow> (process_task processed_tasks task_data', Some task_data')))"

text \<open>
  The last \<^verbatim>\<open>except\<close> clause logs
  \<^verbatim>\<open>task_data.get("task_id", "unknown") if "task_data" in locals() else "unknown"\<close>
  before it records the failure. The call is outside every \<^verbatim>\<open>try\<close>: when it raises,
  the exception leaves \<^verbatim>\<open>lambda_handler\<close>.
\<close>

definition logged_task_id :: "pyval option \<Rightarrow> exn + pyval" where
  "logged_task_id task_data =
     (case task_data of
        None \<Rightarrow> Inr (PStr ''unknown'')
      | Some td \<Rightarrow> py_get td ''task_id'' (PStr ''unknown''))"

text \<open>
  The loop over the records: the exception that ends the handler or the failure list,
  and the set as the loop leaves it. The first two \<^verbatim>\<open>except\<close> clauses log and append
  the record's message id to \<^verbatim>\<open>batch_item_failures\<close>; the last one does so after
  the call above.
\<close>

definition message_id_of :: "sqs_record \<Rightarrow> string" where
  "message_id_of record = (case messageId record of None \<Rightarrow> ''unknown'' | Some m \<Rightarrow> m)"

fun process_records ::
  "(string \<Rightarrow> exn + pyval) \<Rightarrow> registry \<times> batch_item_failure list \<times> pyval option
     \<Rightarrow> sqs_record list \<Rightarrow> (exn + batch_item_failure list) \<times> registry" where
  "process_records loads (processed_tasks, batch_item_failures, task_data) [] =
     (Inr batch_item_failures, processed_tasks)"
| "process_records loads (processed_tasks, batch_item_failures, task_data) (record # records) =
     (let message_id = message_id_of record in
      case try_record loads processed_tasks task_data record of
        (Inr processed_tasks', task_data') \<Rightarrow>
          process_records loads (processed_tasks', batch_item_failures, task_data') records
      | (Inl JSONDecodeError, task_data') \<Rightarrow>
          process_records loads
            (processed_tasks, batch_item_failures @ [\<lparr>itemIdentifier = message_id\<rparr>], task_data')
            records
      | (Inl KeyError, task_data') \<Rightarrow>
          process_records loads
            (processed_tasks, batch_item_failures @ [\<lparr>itemIdentifier = message_id\<rparr>], task_data')
            records
      | (Inl e, task_data') \<Rightarrow>
          (case logged_task_id task_data' of
             Inl e' \<Rightarrow> (Inl e', processed_tasks)
           | Inr task_id \<Rightarrow>
               process_records loads
                 (processed_tasks, batch_item_failures @ [\<lparr>itemIdentifier = message_id\<rparr>],
                  task_data')
                 records))"

text \<open>
  \<^verbatim>\<open>lambda_handler\<close> of the processor: the response, or the exception that the call
  raises, and the set after the call.
\<close>

definition lambda_handler ::
  "(string \<Rightarrow> exn + pyval) \<Rightarrow> registry \<Rightarrow> sqs_event \<Rightarrow> (exn + batch_response) \<times> registry" where
  "lambda_handler loads processed_tasks event =
     (let records = (case Records event of None \<Rightarrow> [] | Some rs \<Rightarrow> rs) in
      case process_records loads (processed_tasks, [], None) records of
        (Inl e, processed_tasks') \<Rightarrow> (Inl e, processed_tasks')
      | (Inr batch_item_failures, processed_tasks') \<Rightarrow>
          (Inr \<lparr>batchItemFailures = batch_item_failures\<rparr>, processed_tasks'))"

text \<open>
  Whether the \<^verbatim>\<open>try\<close> block raises on a record. This depends on the record alone, not
  on the set or on the earlier records.
\<close>

definition record_raises :: "(string \<Rightarrow> exn + pyval) \<Rightarrow> sqs_record \<Rightarrow> bool" where
  "record_raises loads record = isl (fst (try_record loads {||} None record))"

section \<open>The task API\<close>

subsection \<open>Request validation\<close>

text \<open>
  \<^verbatim>\<open>str.strip()\<close> removes from both ends the characters for which \<^verbatim>\<open>str.isspace\<close>
  holds: among the code points below 256 these are 9 to 13, 28 to 32, 133 and 160.
\<close>

definition py_isspace :: "char \<Rightarrow> bool" where
  "py_isspace c =
     (let n = (of_char c :: nat) in (9 \<le> n \<and> n \<le> 13) \<or> (28 \<le> n \<and> n \<le> 32) \<or> n = 133 \<or> n = 160)"

definition strip :: "string \<Rightarrow> string" where
  "strip v = rev (dropWhile py_isspace (rev (dropWhile py_isspace v)))"

text \<open>\<^verbatim>\<open>v.replace("Z", "+00:00")\<close>: every occurrence of the character is replaced.\<close>

definition replace_Z :: "string \<Rightarrow> string" where
  "replace_Z v = concat (map (\<lambda>c. if c = CHR ''Z'' then ''+00:00'' else [c]) v)"

record task_create =
  title :: string
  description :: string
  priority :: string
  due_date :: "string option"

text \<open>\<^verbatim>\<open>TaskCreate.sanitize_string\<close>.\<close>

definition sanitize_string :: "string \<Rightarrow> string" where
  "sanitize_string v = (if v \<noteq> [] then strip v else v)"

text \<open>
  \<^verbatim>\<open>TaskCreate.validate_due_date\<close>. \<^verbatim>\<open>datetime.fromisoformat\<close> is library code and
  a parameter: \<open>fromisoformat s\<close> says whether the call returns a date-time (which the
  validator discards) rather than raising \<^verbatim>\<open>ValueError\<close>, the only exception it
  raises on a string. The validator returns its argument or raises \<^verbatim>\<open>ValueError\<close>.
\<close>

definition validate_due_date :: "(string \<Rightarrow> bool) \<Rightarrow> string option \<Rightarrow> exn + string option" where
  "validate_due_date fromisoformat v =
     (case v of
        None \<Rightarrow> Inr v
      | Some s \<Rightarrow> if fromisoformat (replace_Z s) then Inr v else Inl ValueError)"

text \<open>
  A validation error as Pydantic (version 2) reports it: its \<^verbatim>\<open>type\<close>, its \<^verbatim>\<open>loc\<close>
  (the field, under \<^verbatim>\<open>body\<close>), the \<^verbatim>\<open>input\<close> that failed, and, for an error raised by
  a validator function, the exception object that Pydantic keeps under \<^verbatim>\<open>ctx\<close>. The
  message text is Pydantic's and is left out.
\<close>

record error_details =
  err_type :: string
  err_loc :: "string list"
  err_input :: pyval
  ctx_error :: "exn option"

definition field_error :: "string \<Rightarrow> string \<Rightarrow> pyval \<Rightarrow> exn option \<Rightarrow> error_details" where
  "field_error name t v c =
     \<lparr>err_type = t, err_loc = [''body'', name], err_input = v, ctx_error = c\<rparr>"

text \<open>
  The field declarations of \<^verbatim>\<open>TaskCreate\<close>, as Pydantic validates the decoded JSON
  body \<open>data\<close>. A required field that is absent is \<^verbatim>\<open>missing\<close>, with the whole body as
  input. A \<^verbatim>\<open>str\<close> field takes a string only and checks \<^verbatim>\<open>min_length\<close> and
  \<^verbatim>\<open>max_length\<close> on the value as received; a \<^verbatim>\<open>field_validator\<close> declared without a
  mode is an \<^emph>\<open>after\<close> validator and runs on the value that passed these checks.
\<close>

definition constrained_str ::
  "nat \<Rightarrow> nat \<Rightarrow> string \<Rightarrow> (string \<times> pyval) list \<Rightarrow> error_details + string" where
  "constrained_str min_length max_length name data =
     (case map_of data name of
        None \<Rightarrow> Inl (field_error name ''missing'' (PDict data) None)
      | Some (PStr s) \<Rightarrow>
          if length s < min_length then Inl (field_error name ''string_too_short'' (PStr s) None)
          else if max_length < length s then Inl (field_error name ''string_too_long'' (PStr s) None)
          else Inr s
      | Some v \<Rightarrow> Inl (field_error name ''string_type'' v None))"

definition title_field :: "(string \<times> pyval) list \<Rightarrow> error_details + string" where
  "title_field data = map_sum id sanitize_string (constrained_str 1 200 ''title'' data)"

definition description_field :: "(string \<times> pyval) list \<Rightarrow> error_details + string" where
  "description_field data =
     map_sum id sanitize_string (constrained_str 1 2000 ''description'' data)"

definition priority_field :: "(string \<times> pyval) list \<Rightarrow> error_details + string" where
  "priority_field data =
     (case map_of data ''priority'' of
        None \<Rightarrow> Inl (field_error ''priority'' ''missing'' (PDict data) None)
      | Some (PStr s) \<Rightarrow>
          if s = ''low'' \<or> s = ''medium'' \<or> s = ''high'' then Inr s
          else Inl (field_error ''priority'' ''literal_error'' (PStr s) None)
      | Some v \<Rightarrow> Inl (field_error ''priority'' ''literal_error'' v None))"

text \<open>
  \<^verbatim>\<open>due_date: Optional[str] = Field(None, ...)\<close>: an absent key takes the default
  \<^verbatim>\<open>None\<close>, \<^verbatim>\<open>null\<close> and strings go through the validator, anything else is not a
  string. The \<^verbatim>\<open>ValueError\<close> that the validator raises becomes a \<^verbatim>\<open>value_error\<close>
  that holds the exception.
\<close>

definition due_date_field ::
  "(string \<Rightarrow> bool) \<Rightarrow> (string \<times> pyval) list \<Rightarrow> error_details + string option" where
  "due_date_field fromisoformat data =
     (case map_of data ''due_date'' of
        None \<Rightarrow> Inr None
      | Some PNone \<Rightarrow>
          (case validate_due_date fromisoformat None of
             Inl e \<Rightarrow> Inl (field_error ''due_date'' ''value_error'' PNone (Some e))
           | Inr v \<Rightarrow> Inr v)
      | Some (PStr s) \<Rightarrow>
          (case validate_due_date fromisoformat (Some s) of
             Inl e \<Rightarrow> Inl (field_error ''due_date'' ''value_error'' (PStr s) (Some e))
           | Inr v \<Rightarrow> Inr v)
      | Some v \<Rightarrow> Inl (field_error ''due_date'' ''string_type'' v None))"

text \<open>
  Validation of the body against \<^verbatim>\<open>TaskCreate\<close>: the model, or the errors of the
  fields that failed, in the order of the fields.
\<close>

definition errors_of :: "error_details + 'a \<Rightarrow> error_details list" where
  "errors_of r = (case r of Inl e \<Rightarrow> [e] | Inr v \<Rightarrow> [])"

definition TaskCreate_validate ::
  "(string \<Rightarrow> bool) \<Rightarrow> (string \<times> pyval) list \<Rightarrow> error_details list + task_create" where
  "TaskCreate_validate fromisoformat data =
     (case (title_field data, description_field data, priority_field data,
            due_date_field fromisoformat data) of
        (Inr t, Inr d, Inr p, Inr dd) \<Rightarrow>
          Inr \<lparr>title = t, description = d, priority = p, due_date = dd\<rparr>
      | (t, d, p, dd) \<Rightarrow> Inl (errors_of t @ errors_of d @ errors_of p @ errors_of dd))"

subsection \<open>The endpoint\<close>

record http_response =
  status_code :: nat
  content :: pyval

record log_record =
  levelname :: string
  msg :: string
  extra :: "(string \<times> pyval) list"

datatype http_exception = HTTPException nat string

text \<open>
  The queue client. A call of \<^verbatim>\<open>send_message\<close> returns the response dict, raises
  \<^verbatim>\<open>ClientError\<close> (whose \<^verbatim>\<open>response\<close> may hold an \<^verbatim>\<open>"Error"\<close> dict with
  \<^verbatim>\<open>"Code"\<close> and \<^verbatim>\<open>"Message"\<close>, and whose \<^verbatim>\<open>str\<close> is the second argument), or
  raises another exception, given by its type name and its \<^verbatim>\<open>str\<close>. The message
  body is sent as the JSON text of a dict (\<^verbatim>\<open>json.dumps\<close>); \<open>MessageBody\<close> holds the
  dict.
\<close>

record sqs_message =
  QueueUrl :: string
  MessageBody :: pyval
  MessageGroupId :: string
  MessageDeduplicationId :: string

datatype send_result =
    Sent "(string \<times> string) list"
  | ClientError "(string \<times> string) list option" string
  | OtherException string string

text \<open>
  What the endpoint takes from its environment: the configuration read at import,
  the library functions, the queue client, and the identifier and time stamp drawn for
  the request.
\<close>

record api_env =
  QUEUE_URL :: string
  fromisoformat :: "string \<Rightarrow> bool"
  send_message :: "sqs_message \<Rightarrow> send_result"
  uuid4 :: string
  now_isoformat :: string

definition str_get :: "(string \<times> string) list \<Rightarrow> string \<Rightarrow> string \<Rightarrow> string" where
  "str_get d k dflt = (case map_of d k of None \<Rightarrow> dflt | Some v \<Rightarrow> v)"

definition opt_str :: "string option \<Rightarrow> pyval" where
  "opt_str v = (case v of None \<Rightarrow> PNone | Some s \<Rightarrow> PStr s)"

text \<open>
  \<^verbatim>\<open>create_task\<close>: the response model or the \<^verbatim>\<open>HTTPException\<close> raised, the calls
  made to \<^verbatim>\<open>send_message\<close>, and the log records written.
\<close>

definition create_task ::
  "api_env \<Rightarrow> task_create \<Rightarrow>
     (http_exception + (string \<times> pyval) list) \<times> sqs_message list \<times> log_record list" where
  "create_task env task =
     (let task_id = uuid4 env;
          created_at = now_isoformat env;
          creating = \<lparr>levelname = ''INFO'', msg = ''Creating new task'',
            extra = [(''task_id'', PStr task_id), (''title'', PStr (title task)),
                     (''priority'', PStr (priority task))]\<rparr>;
          message_body =
            [(''task_id'', PStr task_id),
             (''title'', PStr (title task)),
             (''description'', PStr (description task)),
             (''priority'', PStr (priority task)),
             (''due_date'', opt_str (due_date task)),
             (''created_at'', PStr created_at),
             (''status'', PStr ''queued'')];
          message = \<lparr>QueueUrl = QUEUE_URL env,
            MessageBody = PDict message_body,
            MessageGroupId = ''tasks'',
            MessageDeduplicationId = task_id\<rparr>
      in case send_message env message of
           Sent response \<Rightarrow>
             (Inr [(''task_id'', PStr task_id),
                   (''title'', PStr (title task)),
                   (''description'', PStr (description task)),
                   (''priority'', PStr (priority task)),
                   (''due_date'', opt_str (due_date task)),
                   (''created_at'', PStr created_at),
                   (''status'', PStr ''queued'')],
              [message],
              [creating,
               \<lparr>levelname = ''INFO'', msg = ''Task queued successfully'',
                extra = [(''task_id'', PStr task_id),
                         (''message_id'', opt_str (map_of response ''MessageId'')),
                         (''sequence_number'', opt_str (map_of response ''SequenceNumber''))]\<rparr>])
         | ClientError error str_e \<Rightarrow>
             (let error_code = str_get (case error of None \<Rightarrow> [] | Some d \<Rightarrow> d) ''Code'' ''Unknown'';
                  error_message = str_get (case error of None \<Rightarrow> [] | Some d \<Rightarrow> d) ''Message'' str_e
              in (Inl (HTTPException 500 (''Failed to queue task: '' @ error_message)),
                  [message],
                  [creating,
                   \<lparr>levelname = ''ERROR'', msg = ''Failed to send message to SQS'',
                    extra = [(''task_id'', PStr task_id),
                             (''error_code'', PStr error_code),
                             (''error_message'', PStr error_message)]\<rparr>]))
         | OtherException type_name str_e \<Rightarrow>
             (Inl (HTTPException 500 ''An unexpected error occurred while creating the task''),
              [message],
              [creating,
               \<lparr>levelname = ''ERROR'', msg = ''Unexpected error creating task'',
                extra = [(''task_id'', PStr task_id),
                         (''error'', PStr str_e),
                         (''error_type'', PStr type_name)]\<rparr>]))"

text \<open>
  \<^verbatim>\<open>JSONResponse\<close> renders its content with \<^verbatim>\<open>json.dumps(..., allow_nan=False)\<close>
  when it is constructed: a special float raises \<^verbatim>\<open>ValueError\<close>, and an object that
  is no JSON value, such as an exception, raises \<^verbatim>\<open>TypeError\<close>. The handler for
  validation errors puts \<^verbatim>\<open>exc.errors()\<close> into the content as it is; \<open>render_errors\<close>
  is the rendering of that list, error by error, the input before the context. Of an
  error that renders, \<open>error_json\<close> keeps the type, the location and the input; the
  message and the context, whose text is Pydantic's, are left out.
\<close>

fun json_compliant :: "pyval \<Rightarrow> bool" where
  "json_compliant (PFloat f) = (case f of Finite r \<Rightarrow> True | _ \<Rightarrow> False)"
| "json_compliant (PList xs) = list_all json_compliant xs"
| "json_compliant (PDict d) = list_all json_compliant (map snd d)"
| "json_compliant _ = True"

definition error_json :: "error_details \<Rightarrow> pyval" where
  "error_json e =
     PDict [(''type'', PStr (err_type e)),
            (''loc'', PList (map PStr (err_loc e))),
            (''input'', err_input e)]"

fun render_errors :: "error_details list \<Rightarrow> exn + pyval list" where
  "render_errors [] = Inr []"
| "render_errors (e # es) =
     (if \<not> json_compliant (err_input e) then Inl ValueError
      else if ctx_error e \<noteq> None then Inl TypeError
      else (case render_errors es of Inl x \<Rightarrow> Inl x | Inr js \<Rightarrow> Inr (error_json e # js)))"

text \<open>
  The two exception handlers of the application: the response, or the exception that
  the handler itself raises. Their log calls are left out; logging does not raise.
\<close>

definition validation_exception_handler :: "error_details list \<Rightarrow> exn + http_response" where
  "validation_exception_handler errors =
     (case render_errors errors of
        Inl e \<Rightarrow> Inl e
      | Inr details \<Rightarrow>
          Inr \<lparr>status_code = 400,
               content = PDict [(''error'', PStr ''Validation Error''),
                                (''message'', PStr ''Invalid request data''),
                                (''details'', PList details)]\<rparr>)"

fun http_exception_handler :: "http_exception \<Rightarrow> http_response" where
  "http_exception_handler (HTTPException code detail) =
     \<lparr>status_code = code,
      content = PDict [(''error'', PStr ''HTTP Error''), (''message'', PStr detail)]\<rparr>"

text \<open>
  An exception that no handler takes reaches the server error middleware, which answers
  500 with the plain text \<^verbatim>\<open>Internal Server Error\<close>.
\<close>

definition internal_server_error :: http_response where
  "internal_server_error = \<lparr>status_code = 500, content = PStr ''Internal Server Error''\<rparr>"

text \<open>
  \<^verbatim>\<open>POST /tasks\<close> as the application serves it: the body is validated against
  \<^verbatim>\<open>TaskCreate\<close>; a validation error goes to its handler and \<^verbatim>\<open>create_task\<close> is not
  called; otherwise \<^verbatim>\<open>create_task\<close> runs and its result is the 201 response, or its
  \<^verbatim>\<open>HTTPException\<close> goes to the other handler. The result is the response, the calls
  made to the queue client, and the log records of \<^verbatim>\<open>create_task\<close>.
\<close>

definition post_tasks ::
  "api_env \<Rightarrow> (string \<times> pyval) list \<Rightarrow> http_response \<times> sqs_message list \<times> log_record list" where
  "post_tasks env data =
     (case TaskCreate_validate (fromisoformat env) data of
        Inl errors \<Rightarrow>
          (case validation_exception_handler errors of
             Inl e \<Rightarrow> (internal_server_error, [], [])
           | Inr response \<Rightarrow> (response, [], []))
      | Inr task \<Rightarrow>
          (case create_task env task of
             (Inr task_response, sent, logs) \<Rightarrow>
               (\<lparr>status_code = 201, content = PDict task_response\<rparr>, sent, logs)
           | (Inl exc, sent, logs) \<Rightarrow> (http_exception_handler exc, sent, logs)))"

subsection \<open>The API key middleware\<close>

text \<open>
  A request as the middleware reads it. Header names are matched without regard to
  case; \<open>headers\<close> holds them in lower case.
\<close>

record http_request =
  path :: string
  http_method :: string
  headers :: "(string \<times> string) list"

definition forbidden_missing :: http_response where
  "forbidden_missing =
     \<lparr>status_code = 403,
      content = PDict [(''error'', PStr ''Forbidden''),
                       (''message'', PStr ''Missing API Key. Include x-api-key header.'')]\<rparr>"

definition forbidden_invalid :: http_response where
  "forbidden_invalid =
     \<lparr>status_code = 403,
      content = PDict [(''error'', PStr ''Forbidden''), (''message'', PStr ''Invalid API Key.'')]\<rparr>"

text \<open>
  \<^verbatim>\<open>validate_api_key\<close>, with the two settings read from the environment at import and
  the rest of the application as \<open>call_next\<close>. \<^verbatim>\<open>not api_key\<close> holds for an absent
  header and for an empty one.
\<close>

definition validate_api_key ::
  "bool \<Rightarrow> string \<Rightarrow> (http_request \<Rightarrow> http_response) \<Rightarrow> http_request \<Rightarrow> http_response" where
  "validate_api_key ENABLE_API_KEY_CHECK VALID_API_KEY call_next request =
     (if path request \<in> set [''/health'', ''/docs'', ''/redoc'', ''/openapi.json'']
      then call_next request
      else if ENABLE_API_KEY_CHECK then
        (let api_key = map_of (headers request) ''x-api-key'' in
         if api_key = None \<or> api_key = Some [] then forbidden_missing
         else if api_key \<noteq> Some VALID_API_KEY then forbidden_invalid
         else call_next request)
      else call_next request)"

section \<open>Example inputs\<close>

text \<open>
  Concrete inputs for the examples that follow the theorems. \<open>loads_example\<close> is
  \<^verbatim>\<open>json.loads\<close> on the message bodies that occur in them (the shapes used by the
  unit tests of the processor); no other body is decoded there.
\<close>

definition loads_example :: "string \<Rightarrow> exn + pyval" where
  \<open>loads_example s =
     (if s = ''{"task_id": "t-1", "title": "Test Task"}'' then
        Inr (PDict [(''task_id'', PStr ''t-1''), (''title'', PStr ''Test Task'')])
      else if s = ''{"task_id": "t-2", "title": "Test Task 2"}'' then
        Inr (PDict [(''task_id'', PStr ''t-2''), (''title'', PStr ''Test Task 2'')])
      else if s = ''{"title": "Test Task"}'' then
        Inr (PDict [(''title'', PStr ''Test Task'')])
      else if s = ''{}'' then Inr (PDict [])
      else if s = ''[1]'' then Inr (PList [PInt 1])
      else if s = ''{"task_id": ["a"]}'' then Inr (PDict [(''task_id'', PList [PStr ''a''])])
      else Inl JSONDecodeError)\<close>

definition record_t1 :: sqs_record where
  \<open>record_t1 =
     \<lparr>messageId = Some ''m-1'', receiptHandle = Some ''test-receipt-handle-1'',
      body = Some ''{"task_id": "t-1", "title": "Test Task"}'',
      attributes = Some [(''MessageGroupId'', ''tasks''), (''SequenceNumber'', ''1'')]\<rparr>\<close>

definition record_t2 :: sqs_record where
  \<open>record_t2 =
     \<lparr>messageId = Some ''m-2'', receiptHandle = Some ''test-receipt-handle-2'',
      body = Some ''{"task_id": "t-2", "title": "Test Task 2"}'',
      attributes = Some [(''MessageGroupId'', ''tasks''), (''SequenceNumber'', ''2'')]\<rparr>\<close>

definition record_invalid :: sqs_record where
  \<open>record_invalid =
     \<lparr>messageId = Some ''m-3'', receiptHandle = Some ''test-receipt-handle-3'',
      body = Some ''invalid json{{{'',
      attributes = Some [(''MessageGroupId'', ''tasks''), (''SequenceNumber'', ''3'')]\<rparr>\<close>

definition record_no_id :: sqs_record where
  \<open>record_no_id =
     \<lparr>messageId = Some ''m-4'', receiptHandle = Some ''test-receipt-handle-4'',
      body = Some ''{"title": "Test Task"}'',
      attributes = Some [(''MessageGroupId'', ''tasks''), (''SequenceNumber'', ''4'')]\<rparr>\<close>

definition record_list :: sqs_record where
  \<open>record_list =
     \<lparr>messageId = Some ''m-5'', receiptHandle = Some ''test-receipt-handle-5'',
      body = Some ''[1]'',
      attributes = Some [(''MessageGroupId'', ''tasks''), (''SequenceNumber'', ''5'')]\<rparr>\<close>

definition record_list_id :: sqs_record where
  \<open>record_list_id =
     \<lparr>messageId = Some ''m-6'', receiptHandle = Some ''test-receipt-handle-6'',
      body = Some ''{"task_id": ["a"]}'',
      attributes = Some [(''MessageGroupId'', ''tasks''), (''SequenceNumber'', ''6'')]\<rparr>\<close>

definition record_anonymous :: sqs_record where
  \<open>record_anonymous =
     \<lparr>messageId = None, receiptHandle = None, body = Some ''invalid json{{{'',
      attributes = None\<rparr>\<close>

text \<open>
  An environment of the API whose date-time parser takes the two explicit-offset
  strings of the unit tests and whose queue client answers every call with \<open>result\<close>.
\<close>

definition fromisoformat_example :: "string \<Rightarrow> bool" where
  "fromisoformat_example s =
     (s = ''2026-01-15T12:00:00+00:00'' \<or> s = ''2026-01-15T12:00:00+05:00'')"

definition env_example :: "send_result \<Rightarrow> api_env" where
  "env_example result =
     \<lparr>QUEUE_URL = ''https://sqs.us-east-1.amazonaws.com/123456789012/tasks.fifo'',
      fromisoformat = fromisoformat_example,
      send_message = (\<lambda>message. result),
      uuid4 = ''550e8400-e29b-41d4-a716-446655440000'',
      now_isoformat = ''2026-01-10T12:00:00+00:00''\<rparr>"

definition sent_example :: send_result where
  "sent_example = Sent [(''MessageId'', ''m-1''), (''SequenceNumber'', ''1'')]"

definition access_denied :: send_result where
  "access_denied =
     ClientError
       (Some [(''Code'', ''AccessDenied''),
              (''Message'', ''Access to the resource https://sqs.us-east-1.amazonaws.com/ is denied.'')])
       ''An error occurred (AccessDenied) when calling the SendMessage operation: Access to the resource https://sqs.us-east-1.amazonaws.com/ is denied.''"

definition other_exception :: send_result where
  "other_exception = OtherException ''Exception'' ''SQS error''"

definition data_example :: "string \<Rightarrow> (string \<times> pyval) list" where
  "data_example due =
     [(''title'', PStr ''Test Task''),
      (''description'', PStr ''Test task description for unit testing''),
      (''priority'', PStr ''high''),
      (''due_date'', PStr due)]"

definition data_blank_title :: "(string \<times> pyval) list" where
  "data_blank_title =
     [(''title'', PStr '' ''),
      (''description'', PStr ''Test Description''),
      (''priority'', PStr ''high'')]"

definition tasks_request :: "(string \<times> string) list \<Rightarrow> http_request" where
  "tasks_request hs = \<lparr>path = ''/tasks'', http_method = ''POST'', headers = hs\<rparr>"

definition created_example :: "http_request \<Rightarrow> http_response" where
  "created_example request = \<lparr>status_code = 201, content = PDict [(''status'', PStr ''queued'')]\<rparr>"

section \<open>The record loop\<close>

text \<open>
  What the \<^verbatim>\<open>try\<close> block does to one record: the decoder raises; the payload is no
  object; the task id is unhashable; or the task id is registered.
\<close>

lemma try_record_decode_error:
  "loads (message_body_of r) = Inl e \<Longrightarrow> try_record loads reg td r = (Inl e, td)"
  by (simp add: try_record_def)

lemma py_get_error: "py_get v k dflt = Inl e \<Longrightarrow> e = AttributeError"
  by (cases "(v, k, dflt)" rule: py_get.cases) simp_all

lemma set_key_error: "set_key v = Inl e \<Longrightarrow> e = TypeError"
  by (cases v) simp_all

lemma try_record_not_object:
  "loads (message_body_of r) = Inr t \<Longrightarrow> py_get t ''task_id'' (PStr ''unknown'') = Inl e \<Longrightarrow>
   try_record loads reg td r = (Inl AttributeError, Some t)"
  by (auto simp: try_record_def dest: py_get_error)

lemma try_record_unhashable:
  "loads (message_body_of r) = Inr t \<Longrightarrow> py_get t ''task_id'' (PStr ''unknown'') = Inr task_id \<Longrightarrow>
   set_key task_id = Inl e \<Longrightarrow>
   try_record loads reg td r = (Inl TypeError, Some t)"
  by (auto simp: try_record_def process_task_def dest: set_key_error)

lemma try_record_ok:
  "loads (message_body_of r) = Inr t \<Longrightarrow> py_get t ''task_id'' (PStr ''unknown'') = Inr task_id \<Longrightarrow>
   set_key task_id = Inr k \<Longrightarrow>
   try_record loads reg td r = (Inr (finsert k reg), Some t)"
  by (auto simp: try_record_def process_task_def finsert_absorb)

text \<open>One turn of the loop: the record succeeds, fails and is recorded, or ends the handler.\<close>

lemma process_records_ok:
  "try_record loads reg td r = (Inr reg', td') \<Longrightarrow>
   process_records loads (reg, acc, td) (r # rs) = process_records loads (reg', acc, td') rs"
  by simp

lemma process_records_fail:
  "try_record loads reg td r = (Inl e, td') \<Longrightarrow> logged_task_id td' = Inr v \<Longrightarrow>
   process_records loads (reg, acc, td) (r # rs) =
     process_records loads (reg, acc @ [\<lparr>itemIdentifier = message_id_of r\<rparr>], td') rs"
  by (cases e) simp_all

lemma process_records_abort:
  "try_record loads reg td r = (Inl e, td') \<Longrightarrow> e \<noteq> JSONDecodeError \<Longrightarrow> e \<noteq> KeyError \<Longrightarrow>
   logged_task_id td' = Inl e' \<Longrightarrow>
   process_records loads (reg, acc, td) (r # rs) = (Inl e', reg)"
  by (cases e) simp_all

text \<open>
  The value that \<open>task_data\<close> holds when a turn begins does not matter as long as the
  call in the last \<^verbatim>\<open>except\<close> clause succeeds on it, and that is so whenever the loop
  goes on to the next record.
\<close>

lemma process_records_local:
  "logged_task_id td1 = Inr v1 \<Longrightarrow> logged_task_id td2 = Inr v2 \<Longrightarrow>
   process_records loads (reg, acc, td1) rs = process_records loads (reg, acc, td2) rs"
proof (induction rs arbitrary: reg acc td1 td2 v1 v2)
  case Nil
  show ?case by simp
next
  case (Cons r rs)
  show ?case
  proof (cases "loads (message_body_of r)")
    case (Inl e)
    have "process_records loads (reg, acc, td1) (r # rs) =
        process_records loads (reg, acc @ [\<lparr>itemIdentifier = message_id_of r\<rparr>], td1) rs"
      using try_record_decode_error [of loads, OF Inl] Cons.prems(1) by (rule process_records_fail)
    moreover have "process_records loads (reg, acc, td2) (r # rs) =
        process_records loads (reg, acc @ [\<lparr>itemIdentifier = message_id_of r\<rparr>], td2) rs"
      using try_record_decode_error [of loads, OF Inl] Cons.prems(2) by (rule process_records_fail)
    ultimately show ?thesis using Cons.IH [OF Cons.prems] by simp
  next
    case (Inr t)
    then have "try_record loads reg td1 r = try_record loads reg td2 r"
      by (simp add: try_record_def)
    then show ?thesis by simp
  qed
qed

text \<open>
  Hence the loop in terms of the record alone. A record whose payload is valid JSON but
  not an object ends the handler with \<^verbatim>\<open>AttributeError\<close>: the first \<^verbatim>\<open>get\<close> raises
  it inside the \<^verbatim>\<open>try\<close>, and the last \<^verbatim>\<open>except\<close> clause raises it again.
\<close>

lemma process_records_Cons:
  "process_records loads (reg, acc, None) (r # rs) =
     (case loads (message_body_of r) of
        Inl e \<Rightarrow> process_records loads (reg, acc @ [\<lparr>itemIdentifier = message_id_of r\<rparr>], None) rs
      | Inr t \<Rightarrow>
          (case py_get t ''task_id'' (PStr ''unknown'') of
             Inl e \<Rightarrow> (Inl AttributeError, reg)
           | Inr task_id \<Rightarrow>
               (case set_key task_id of
                  Inl e \<Rightarrow>
                    process_records loads
                      (reg, acc @ [\<lparr>itemIdentifier = message_id_of r\<rparr>], None) rs
                | Inr k \<Rightarrow> process_records loads (finsert k reg, acc, None) rs)))"
proof (cases "loads (message_body_of r)")
  case (Inl e)
  have "logged_task_id None = Inr (PStr ''unknown'')" by (simp add: logged_task_id_def)
  with try_record_decode_error [of loads, OF Inl]
  have "process_records loads (reg, acc, None) (r # rs) =
      process_records loads (reg, acc @ [\<lparr>itemIdentifier = message_id_of r\<rparr>], None) rs"
    by (rule process_records_fail)
  then show ?thesis using Inl by simp
next
  case (Inr t)
  show ?thesis
  proof (cases "py_get t ''task_id'' (PStr ''unknown'')")
    case (Inl e)
    have l: "logged_task_id (Some t) = Inl AttributeError"
      using Inl py_get_error [OF Inl] by (simp add: logged_task_id_def)
    have "process_records loads (reg, acc, None) (r # rs) = (Inl AttributeError, reg)"
      using try_record_not_object [of loads, OF Inr Inl] _ _ l by (rule process_records_abort) simp_all
    then show ?thesis using Inr Inl by simp
  next
    case tid: (Inr task_id)
    have l: "logged_task_id (Some t) = Inr task_id"
      using tid by (simp add: logged_task_id_def)
    have n: "logged_task_id None = Inr (PStr ''unknown'')" by (simp add: logged_task_id_def)
    show ?thesis
    proof (cases "set_key task_id")
      case (Inl e)
      have "process_records loads (reg, acc, None) (r # rs) =
          process_records loads (reg, acc @ [\<lparr>itemIdentifier = message_id_of r\<rparr>], Some t) rs"
        using try_record_unhashable [of loads, OF Inr tid Inl] l by (rule process_records_fail)
      also have "\<dots> = process_records loads (reg, acc @ [\<lparr>itemIdentifier = message_id_of r\<rparr>], None) rs"
        using l n by (rule process_records_local)
      finally show ?thesis using Inr tid Inl by simp
    next
      case k: (Inr k)
      have "process_records loads (reg, acc, None) (r # rs) =
          process_records loads (finsert k reg, acc, Some t) rs"
        using try_record_ok [of loads, OF Inr tid k] by (rule process_records_ok)
      also have "\<dots> = process_records loads (finsert k reg, acc, None) rs"
        using l n by (rule process_records_local)
      finally show ?thesis using Inr tid k by simp
    qed
  qed
qed

declare process_records.simps(2) [simp del]

text \<open>
  The failure list is an accumulator, a batch is processed as its first part followed by
  the rest, and the set never shrinks.
\<close>

lemma process_records_acc:
  "process_records loads (reg, acc, None) rs =
     (map_sum id ((@) acc) (fst (process_records loads (reg, [], None) rs)),
      snd (process_records loads (reg, [], None) rs))"
proof (induction rs arbitrary: reg acc)
  case Nil
  show ?case by simp
next
  case (Cons r rs)
  let ?m = "\<lparr>itemIdentifier = message_id_of r\<rparr>"
  let ?X = "fst (process_records loads (reg, [], None) rs)"
  let ?Y = "snd (process_records loads (reg, [], None) rs)"
  have a1: "process_records loads (reg, acc @ [?m], None) rs =
      (map_sum id ((@) (acc @ [?m])) ?X, ?Y)"
    by (rule Cons.IH)
  have a2: "process_records loads (reg, [?m], None) rs = (map_sum id ((@) [?m]) ?X, ?Y)"
    by (rule Cons.IH)
  have fail: "process_records loads (reg, acc @ [?m], None) rs =
      (map_sum id ((@) acc) (fst (process_records loads (reg, [?m], None) rs)),
       snd (process_records loads (reg, [?m], None) rs))"
    unfolding a1 a2 by (cases ?X) simp_all
  show ?case
    by (simp only: process_records_Cons [of loads reg _ r rs])
       (simp add: fail Cons.IH [of _ acc] id_def split: sum.split)
qed

lemma process_records_append:
  "process_records loads (reg, acc, None) (xs @ ys) =
     (case process_records loads (reg, acc, None) xs of
        (Inl e, reg') \<Rightarrow> (Inl e, reg')
      | (Inr fs, reg') \<Rightarrow> process_records loads (reg', fs, None) ys)"
proof (induction xs arbitrary: reg acc)
  case Nil
  show ?case by simp
next
  case (Cons r xs)
  show ?case
    by (simp only: append_Cons process_records_Cons [of loads reg acc r])
       (simp add: Cons.IH split: sum.split)
qed

lemma process_records_mono:
  "reg |\<subseteq>| snd (process_records loads (reg, acc, None) rs)"
proof (induction rs arbitrary: reg acc)
  case Nil
  show ?case by simp
next
  case (Cons r rs)
  have "reg |\<subseteq>| snd (process_records loads (finsert k reg, acc, None) rs)" for k
    using Cons.IH [of "finsert k reg" acc] by auto
  then show ?case
    by (simp only: process_records_Cons [of loads reg acc r rs])
       (simp add: Cons.IH split: sum.split)
qed

text \<open>The handler in terms of the loop.\<close>

lemma lambda_handler_eq:
  "lambda_handler loads reg event =
     (map_sum id (\<lambda>fs. \<lparr>batchItemFailures = fs\<rparr>)
        (fst (process_records loads (reg, [], None)
               (case Records event of None \<Rightarrow> [] | Some rs \<Rightarrow> rs))),
      snd (process_records loads (reg, [], None)
             (case Records event of None \<Rightarrow> [] | Some rs \<Rightarrow> rs)))"
  by (simp add: lambda_handler_def Let_def split: prod.split sum.split)

lemma lambda_handler_records:
  "lambda_handler loads reg \<lparr>Records = Some rs\<rparr> =
     (map_sum id (\<lambda>fs. \<lparr>batchItemFailures = fs\<rparr>) (fst (process_records loads (reg, [], None) rs)),
      snd (process_records loads (reg, [], None) rs))"
  by (simp add: lambda_handler_eq)

text \<open>A batch in which every record succeeds.\<close>

lemma process_records_all_ok:
  assumes "map (\<lambda>r. loads (message_body_of r)) rs = map Inr tds"
    and "map (\<lambda>td. py_get td ''task_id'' (PStr ''unknown'')) tds = map Inr tids"
    and "map set_key tids = map Inr ks"
  shows "process_records loads (reg, acc, None) rs = (Inr acc, reg |\<union>| fset_of_list ks)"
  using assms
proof (induction rs arbitrary: tds tids ks reg)
  case Nil
  then show ?case by simp
next
  case (Cons r rs)
  from Cons.prems(1) obtain td tds' where tds: "tds = td # tds'"
    and td: "loads (message_body_of r) = Inr td"
    and rest1: "map (\<lambda>r. loads (message_body_of r)) rs = map Inr tds'"
    by (cases tds) auto
  from Cons.prems(2) tds obtain tid tids' where tids: "tids = tid # tids'"
    and tid: "py_get td ''task_id'' (PStr ''unknown'') = Inr tid"
    and rest2: "map (\<lambda>td. py_get td ''task_id'' (PStr ''unknown'')) tds' = map Inr tids'"
    by (cases tids) auto
  from Cons.prems(3) tids obtain k ks' where ks: "ks = k # ks'"
    and k: "set_key tid = Inr k"
    and rest3: "map set_key tids' = map Inr ks'"
    by (cases ks) auto
  have "process_records loads (reg, acc, None) (r # rs) =
      process_records loads (finsert k reg, acc, None) rs"
    by (simp only: process_records_Cons [of loads reg acc r rs]) (simp add: td tid k)
  also have "\<dots> = (Inr acc, finsert k reg |\<union>| fset_of_list ks')"
    using rest1 rest2 rest3 by (rule Cons.IH)
  finally show ?case by (simp add: ks)
qed

lemma fcard_disjoint_list:
  "distinct ks \<Longrightarrow> fset_of_list ks |\<inter>| reg = {||} \<Longrightarrow>
   fcard (reg |\<union>| fset_of_list ks) = fcard reg + length ks"
proof (induction ks arbitrary: reg)
  case Nil
  show ?case by simp
next
  case (Cons k ks)
  from Cons.prems have k: "k |\<notin>| reg" and d: "distinct ks" and kk: "k \<notin> set ks"
    and dis: "fset_of_list ks |\<inter>| finsert k reg = {||}"
    by (auto simp: fset_of_list_elem)
  have "reg |\<union>| fset_of_list (k # ks) = finsert k reg |\<union>| fset_of_list ks" by auto
  then have "fcard (reg |\<union>| fset_of_list (k # ks)) = fcard (finsert k reg) + length ks"
    using Cons.IH [OF d dis] by simp
  then show ?case using k by (simp add: fcard_finsert_disjoint)
qed

text \<open>
  When the handler returns, its failure list holds the message ids of exactly the
  records on which the \<^verbatim>\<open>try\<close> block raised, in the order of the batch.
\<close>

lemma record_raises_iff:
  "record_raises loads r \<longleftrightarrow>
     (case loads (message_body_of r) of
        Inl e \<Rightarrow> True
      | Inr t \<Rightarrow>
          (case py_get t ''task_id'' (PStr ''unknown'') of
             Inl e \<Rightarrow> True
           | Inr task_id \<Rightarrow> (case set_key task_id of Inl e \<Rightarrow> True | Inr k \<Rightarrow> False)))"
  by (simp add: record_raises_def try_record_def process_task_def split: sum.split)

lemma process_records_failures:
  assumes "process_records loads (reg, acc, None) rs = (Inr fs, reg')"
  shows "fs = acc @ map (\<lambda>r. \<lparr>itemIdentifier = (case messageId r of None \<Rightarrow> ''unknown'' | Some m \<Rightarrow> m)\<rparr>)
                     (filter (record_raises loads) rs)"
  using assms
proof (induction rs arbitrary: reg acc)
  case Nil
  then show ?case by simp
next
  case (Cons r rs)
  from Cons.prems show ?case
    by (simp only: process_records_Cons [of loads reg acc r rs])
       (auto simp: record_raises_iff message_id_of_def dest!: Cons.IH split: sum.splits)
qed

text \<open>The example records under the example decoder.\<close>

lemma body_t1:
  "loads_example (message_body_of record_t1) =
     Inr (PDict [(''task_id'', PStr ''t-1''), (''title'', PStr ''Test Task'')])"
  by (simp add: loads_example_def message_body_of_def record_t1_def)

lemma body_t2:
  "loads_example (message_body_of record_t2) =
     Inr (PDict [(''task_id'', PStr ''t-2''), (''title'', PStr ''Test Task 2'')])"
  by (simp add: loads_example_def message_body_of_def record_t2_def)

lemma body_invalid:
  "loads_example (message_body_of record_invalid) = Inl JSONDecodeError"
  by (simp add: loads_example_def message_body_of_def record_invalid_def)

lemma body_no_id:
  "loads_example (message_body_of record_no_id) = Inr (PDict [(''title'', PStr ''Test Task'')])"
  by (simp add: loads_example_def message_body_of_def record_no_id_def)

lemma body_list:
  "loads_example (message_body_of record_list) = Inr (PList [PInt 1])"
  by (simp add: loads_example_def message_body_of_def record_list_def)

lemma body_list_id:
  "loads_example (message_body_of record_list_id) = Inr (PDict [(''task_id'', PList [PStr ''a''])])"
  by (simp add: loads_example_def message_body_of_def record_list_id_def)

lemma body_anonymous:
  "loads_example (message_body_of record_anonymous) = Inl JSONDecodeError"
  by (simp add: loads_example_def message_body_of_def record_anonymous_def)

lemma message_ids:
  "message_id_of record_t1 = ''m-1''"
  "message_id_of record_t2 = ''m-2''"
  "message_id_of record_invalid = ''m-3''"
  "message_id_of record_no_id = ''m-4''"
  "message_id_of record_list = ''m-5''"
  "message_id_of record_list_id = ''m-6''"
  "message_id_of record_anonymous = ''unknown''"
  by (simp_all add: message_id_of_def record_t1_def record_t2_def record_invalid_def
      record_no_id_def record_list_def record_list_id_def record_anonymous_def)

lemmas example_bodies =
  body_t1 body_t2 body_invalid body_no_id body_list body_list_id body_anonymous

section \<open>Claims about the processor\<close>


text \<open>
  What does hold: a record whose body is malformed JSON is reported and the other
  record of the batch is registered, in either order; and every record whose payload is
  no object ends the handler, wherever it stands in the batch.
\<close>

lemma malformed_json_is_isolated:
  assumes "loads (message_body_of good) = Inr task_data"
    and "py_get task_data ''task_id'' (PStr ''unknown'') = Inr task_id"
    and "set_key task_id = Inr k"
    and "loads (message_body_of bad) = Inl JSONDecodeError"
  shows "lambda_handler loads reg \<lparr>Records = Some [good, bad]\<rparr> =
           (Inr \<lparr>batchItemFailures = [\<lparr>itemIdentifier = message_id_of bad\<rparr>]\<rparr>, finsert k reg)
       \<and> lambda_handler loads reg \<lparr>Records = Some [bad, good]\<rparr> =
           (Inr \<lparr>batchItemFailures = [\<lparr>itemIdentifier = message_id_of bad\<rparr>]\<rparr>, finsert k reg)"
  using assms
  by (simp add: lambda_handler_records process_records_Cons)

lemma non_object_payload_raises:
  assumes "loads (message_body_of r) = Inr t"
    and "py_get t ''task_id'' (PStr ''unknown'') = Inl e"
  shows "lambda_handler loads reg \<lparr>Records = Some (pre @ r # post)\<rparr> =
           (case lambda_handler loads reg \<lparr>Records = Some pre\<rparr> of
              (Inl e', reg') \<Rightarrow> (Inl e', reg')
            | (Inr response, reg') \<Rightarrow> (Inl AttributeError, reg'))"
proof -
  obtain x reg1 where p: "process_records loads (reg, [], None) pre = (x, reg1)"
    by (cases "process_records loads (reg, [], None) pre")
  show ?thesis
  proof (cases x)
    case (Inl e')
    then show ?thesis
      by (simp add: lambda_handler_records process_records_append p)
  next
    case (Inr fs)
    have "process_records loads (reg1, fs, None) (r # post) = (Inl AttributeError, reg1)"
      by (simp only: process_records_Cons [of loads reg1 fs r post]) (simp add: assms)
    then show ?thesis
      using Inr by (simp add: lambda_handler_records process_records_append p)
  qed
qed

text \<open>
  Claim C10. For every input batch on which the handler returns a response, the item
  identifiers of \<^verbatim>\<open>batchItemFailures\<close> are the \<^verbatim>\<open>messageId\<close> fields (\<^verbatim>\<open>"unknown"\<close>
  for a record that has none) of exactly the records on which the \<^verbatim>\<open>try\<close> block
  raised, in batch order. So they form a subsequence of the message ids of the batch:
  every failure record is the message id of some record of the batch, a record
  contributes at most one failure record, and the failure records keep the order of
  their records.
\<close>
theorem failures_are_batch_message_ids:
  assumes "fst (lambda_handler loads reg event) = Inr response"
  shows "map itemIdentifier (batchItemFailures response) =
           map (\<lambda>r. case messageId r of None \<Rightarrow> ''unknown'' | Some m \<Rightarrow> m)
             (filter (record_raises loads) (case Records event of None \<Rightarrow> [] | Some rs \<Rightarrow> rs))
       \<and> subseq (map itemIdentifier (batchItemFailures response))
           (map (\<lambda>r. case messageId r of None \<Rightarrow> ''unknown'' | Some m \<Rightarrow> m)
             (case Records event of None \<Rightarrow> [] | Some rs \<Rightarrow> rs))"
proof -
  let ?rs = "case Records event of None \<Rightarrow> [] | Some rs \<Rightarrow> rs"
  let ?mid = "\<lambda>r. case messageId r of None \<Rightarrow> ''unknown'' | Some m \<Rightarrow> m"
  obtain x reg' where p: "process_records loads (reg, [], None) ?rs = (x, reg')"
    by (cases "process_records loads (reg, [], None) ?rs")
  with assms obtain fs where x: "x = Inr fs" and r: "response = \<lparr>batchItemFailures = fs\<rparr>"
    by (cases x) (auto simp: lambda_handler_eq)
  from p x have "fs = [] @ map (\<lambda>r. \<lparr>itemIdentifier = ?mid r\<rparr>) (filter (record_raises loads) ?rs)"
    by (intro process_records_failures) simp
  then have eq: "map itemIdentifier (batchItemFailures response) =
      map ?mid (filter (record_raises loads) ?rs)"
    using r by (simp add: comp_def)
  have "subseq (map ?mid (filter (record_raises loads) ?rs)) (map ?mid ?rs)"
    by (intro subseq_map subseq_filter_left)
  with eq show ?thesis by simp
qed

theorem failures_are_batch_message_ids_witness:
  "fst (lambda_handler loads_example {||}
         \<lparr>Records = Some [record_t1, record_invalid, record_list_id, record_anonymous, record_t2]\<rparr>) =
     Inr \<lparr>batchItemFailures =
           [\<lparr>itemIdentifier = ''m-3''\<rparr>, \<lparr>itemIdentifier = ''m-6''\<rparr>, \<lparr>itemIdentifier = ''unknown''\<rparr>]\<rparr>
   \<and> map (\<lambda>r. case messageId r of None \<Rightarrow> ''unknown'' | Some m \<Rightarrow> m)
       (filter (record_raises loads_example)
         [record_t1, record_invalid, record_list_id, record_anonymous, record_t2]) =
     [''m-3'', ''m-6'', ''unknown'']
   \<and> subseq [''m-3'', ''m-6'', ''unknown''] [''m-1'', ''m-3'', ''m-6'', ''unknown'', ''m-2'']"
proof -
  let ?event = "\<lparr>Records = Some [record_t1, record_invalid, record_list_id, record_anonymous, record_t2]\<rparr>"
  let ?response = "\<lparr>batchItemFailures =
           [\<lparr>itemIdentifier = ''m-3''\<rparr>, \<lparr>itemIdentifier = ''m-6''\<rparr>, \<lparr>itemIdentifier = ''unknown''\<rparr>]\<rparr>"
  have h: "fst (lambda_handler loads_example {||} ?event) = Inr ?response"
    by (simp add: lambda_handler_records process_records_Cons example_bodies message_ids)
  have m: "map (\<lambda>r. case messageId r of None \<Rightarrow> ''unknown'' | Some m \<Rightarrow> m)
      [record_t1, record_invalid, record_list_id, record_anonymous, record_t2] =
      [''m-1'', ''m-3'', ''m-6'', ''unknown'', ''m-2'']"
    by (simp add: record_t1_def record_t2_def record_invalid_def record_list_id_def
        record_anonymous_def)
  show ?thesis
    using failures_are_batch_message_ids [OF h] h m by simp
qed

text \<open>
  Claim C7. The set of processed task ids is empty when the module is loaded, and for
  every batch the set after \<^verbatim>\<open>lambda_handler\<close> contains the set before the call,
  whether the call returns or raises: nothing is ever removed.
\<close>
theorem registry_grows_monotonically:
  "processed_tasks_init = {||} \<and> reg |\<subseteq>| snd (lambda_handler loads reg event)"
proof -
  have "reg |\<subseteq>| snd (lambda_handler loads reg event)"
    by (simp add: lambda_handler_eq process_records_mono)
  then show ?thesis by (simp add: processed_tasks_init_def)
qed

text \<open>
  Claim C2. Take a record whose task id is already in the set when the loop reaches
  it (the set that the records \<open>pre\<close> before it have left). The record has no effect:
  the handler does for the batch what it does for the batch without the record, and
  the record alone, processed from that set, yields no failure record and the same
  set.
\<close>
theorem registered_task_is_noop:
  assumes "loads (message_body_of r) = Inr task_data"
    and "py_get task_data ''task_id'' (PStr ''unknown'') = Inr task_id"
    and "set_key task_id = Inr k"
    and "k |\<in>| snd (lambda_handler loads reg \<lparr>Records = Some pre\<rparr>)"
  shows "lambda_handler loads reg \<lparr>Records = Some (pre @ r # post)\<rparr> =
           lambda_handler loads reg \<lparr>Records = Some (pre @ post)\<rparr>
       \<and> lambda_handler loads (snd (lambda_handler loads reg \<lparr>Records = Some pre\<rparr>))
             \<lparr>Records = Some [r]\<rparr> =
           (Inr \<lparr>batchItemFailures = []\<rparr>, snd (lambda_handler loads reg \<lparr>Records = Some pre\<rparr>))"
proof -
  obtain x reg1 where p: "process_records loads (reg, [], None) pre = (x, reg1)"
    by (cases "process_records loads (reg, [], None) pre")
  have k: "k |\<in>| reg1"
    using assms(4) by (simp add: lambda_handler_records p)
  have step: "process_records loads (reg1, fs, None) (r # rs) =
      process_records loads (reg1, fs, None) rs" for fs rs
    by (simp only: process_records_Cons [of loads reg1 fs r rs])
       (simp add: assms(1-3) k finsert_absorb)
  have "process_records loads (reg, [], None) (pre @ r # post) =
      process_records loads (reg, [], None) (pre @ post)"
    by (cases x) (simp_all add: process_records_append p step)
  moreover have "process_records loads (reg1, [], None) [r] = (Inr [], reg1)"
    by (simp only: step) simp
  ultimately show ?thesis
    by (simp add: lambda_handler_records p)
qed

theorem registered_task_is_noop_witness:
  "loads_example (message_body_of record_t1) =
     Inr (PDict [(''task_id'', PStr ''t-1''), (''title'', PStr ''Test Task'')])
   \<and> HStr ''t-1'' |\<in>| snd (lambda_handler loads_example {||} \<lparr>Records = Some [record_t1]\<rparr>)
   \<and> lambda_handler loads_example {||} \<lparr>Records = Some [record_t1, record_t1, record_t2]\<rparr> =
       lambda_handler loads_example {||} \<lparr>Records = Some [record_t1, record_t2]\<rparr>
   \<and> lambda_handler loads_example {|HStr ''t-1''|} \<lparr>Records = Some [record_t1]\<rparr> =
       (Inr \<lparr>batchItemFailures = []\<rparr>, {|HStr ''t-1''|})"
proof -
  have h2: "py_get (PDict [(''task_id'', PStr ''t-1''), (''title'', PStr ''Test Task'')])
      ''task_id'' (PStr ''unknown'') = Inr (PStr ''t-1'')"
    by simp
  have h3: "set_key (PStr ''t-1'') = Inr (HStr ''t-1'')" by simp
  have e: "lambda_handler loads_example {||} \<lparr>Records = Some [record_t1]\<rparr> =
      (Inr \<lparr>batchItemFailures = []\<rparr>, {|HStr ''t-1''|})"
    by (simp add: lambda_handler_records process_records_Cons body_t1)
  have h4: "HStr ''t-1'' |\<in>| snd (lambda_handler loads_example {||} \<lparr>Records = Some [record_t1]\<rparr>)"
    by (simp add: e)
  show ?thesis
    using registered_task_is_noop [of loads_example, OF body_t1 h2 h3 h4, of "[record_t2]"]
      body_t1 h4
    by (simp add: e)
qed

text \<open>
  Claim C3. Take a batch of records whose bodies decode to payloads \<open>tds\<close> with task
  ids \<open>tids\<close> that are hashable, pairwise distinct as members of a Python set (their
  keys \<open>ks\<close>), and not in the set. The handler returns no failure record, the set gains
  exactly these ids, and its size grows by the number of records. For the empty batch
  the failure list is empty and the set is unchanged.
\<close>
theorem distinct_batch_registers_all:
  assumes "map (\<lambda>r. loads (message_body_of r)) records = map Inr tds"
    and "map (\<lambda>td. py_get td ''task_id'' (PStr ''unknown'')) tds = map Inr tids"
    and "map set_key tids = map Inr ks"
    and "distinct ks"
    and "fset_of_list ks |\<inter>| reg = {||}"
  shows "lambda_handler loads reg \<lparr>Records = Some records\<rparr> =
           (Inr \<lparr>batchItemFailures = []\<rparr>, reg |\<union>| fset_of_list ks)
       \<and> fcard (reg |\<union>| fset_of_list ks) = fcard reg + length records
       \<and> lambda_handler loads reg \<lparr>Records = Some []\<rparr> = (Inr \<lparr>batchItemFailures = []\<rparr>, reg)"
proof -
  have len: "length ks = length records"
    using assms(1-3) by (metis length_map)
  have "process_records loads (reg, [], None) records = (Inr [], reg |\<union>| fset_of_list ks)"
    using assms(1-3) by (rule process_records_all_ok)
  then have "lambda_handler loads reg \<lparr>Records = Some records\<rparr> =
           (Inr \<lparr>batchItemFailures = []\<rparr>, reg |\<union>| fset_of_list ks)"
    by (simp add: lambda_handler_records)
  moreover have "fcard (reg |\<union>| fset_of_list ks) = fcard reg + length records"
    using fcard_disjoint_list [OF assms(4,5)] len by simp
  moreover have "lambda_handler loads reg \<lparr>Records = Some []\<rparr> = (Inr \<lparr>batchItemFailures = []\<rparr>, reg)"
    by (simp add: lambda_handler_records)
  ultimately show ?thesis by simp
qed

theorem distinct_batch_registers_all_witness:
  "map (\<lambda>r. loads_example (message_body_of r)) [record_t1, record_t2] =
     map Inr [PDict [(''task_id'', PStr ''t-1''), (''title'', PStr ''Test Task'')],
              PDict [(''task_id'', PStr ''t-2''), (''title'', PStr ''Test Task 2'')]]
   \<and> distinct [HStr ''t-1'', HStr ''t-2'']
   \<and> fset_of_list [HStr ''t-1'', HStr ''t-2''] |\<inter>| {|HStr ''t-0''|} = {||}
   \<and> lambda_handler loads_example {|HStr ''t-0''|} \<lparr>Records = Some [record_t1, record_t2]\<rparr> =
       (Inr \<lparr>batchItemFailures = []\<rparr>, {|HStr ''t-0'', HStr ''t-1'', HStr ''t-2''|})
   \<and> fcard {|HStr ''t-0'', HStr ''t-1'', HStr ''t-2''|} = fcard {|HStr ''t-0''|} + 2"
proof -
  have h1: "map (\<lambda>r. loads_example (message_body_of r)) [record_t1, record_t2] =
     map Inr [PDict [(''task_id'', PStr ''t-1''), (''title'', PStr ''Test Task'')],
              PDict [(''task_id'', PStr ''t-2''), (''title'', PStr ''Test Task 2'')]]"
    by (simp add: body_t1 body_t2)
  have h2: "map (\<lambda>td. py_get td ''task_id'' (PStr ''unknown''))
      [PDict [(''task_id'', PStr ''t-1''), (''title'', PStr ''Test Task'')],
       PDict [(''task_id'', PStr ''t-2''), (''title'', PStr ''Test Task 2'')]] =
      map Inr [PStr ''t-1'', PStr ''t-2'']"
    by simp
  have h3: "map set_key [PStr ''t-1'', PStr ''t-2''] = map Inr [HStr ''t-1'', HStr ''t-2'']"
    by simp
  have h4: "distinct [HStr ''t-1'', HStr ''t-2'']" by simp
  have h5: "fset_of_list [HStr ''t-1'', HStr ''t-2''] |\<inter>| {|HStr ''t-0''|} = {||}" by simp
  have u: "{|HStr ''t-0''|} |\<union>| fset_of_list [HStr ''t-1'', HStr ''t-2''] =
      {|HStr ''t-0'', HStr ''t-1'', HStr ''t-2''|}"
    by auto
  show ?thesis
    using distinct_batch_registers_all [of loads_example, OF h1 h2 h3 h4 h5] h1 h4 h5
    by (simp only: u list.size) simp
qed

text \<open>
  The same for task ids as the message format has them, strings: distinct strings
  are distinct members of the set.
\<close>

lemma distinct_string_ids_register_all:
  assumes "map (\<lambda>r. loads (message_body_of r)) records = map Inr tds"
    and "map (\<lambda>td. py_get td ''task_id'' (PStr ''unknown'')) tds = map (\<lambda>t. Inr (PStr t)) ts"
    and "distinct ts"
    and "\<forall>t \<in> set ts. HStr t |\<notin>| reg"
  shows "lambda_handler loads reg \<lparr>Records = Some records\<rparr> =
           (Inr \<lparr>batchItemFailures = []\<rparr>, reg |\<union>| fset_of_list (map HStr ts))
       \<and> fcard (reg |\<union>| fset_of_list (map HStr ts)) = fcard reg + length records"
proof -
  have len: "length ts = length records"
    using assms(1,2) by (metis length_map)
  have "process_records loads (reg, [], None) records =
      (Inr [], reg |\<union>| fset_of_list (map HStr ts))"
  proof (rule process_records_all_ok)
    show "map (\<lambda>r. loads (message_body_of r)) records = map Inr tds" by (rule assms(1))
    show "map (\<lambda>td. py_get td ''task_id'' (PStr ''unknown'')) tds = map Inr (map PStr ts)"
      using assms(2) by simp
    show "map set_key (map PStr ts) = map Inr (map HStr ts)" by simp
  qed
  moreover have "distinct (map HStr ts)"
    using assms(3) by (simp add: distinct_map inj_on_def)
  moreover have "fset_of_list (map HStr ts) |\<inter>| reg = {||}"
    using assms(4) by (auto simp: fset_of_list_elem)
  ultimately show ?thesis
    using fcard_disjoint_list [of "map HStr ts" reg] len
    by (simp add: lambda_handler_records)
qed

text \<open>
  Claim C5. Take a batch of records whose bodies decode to JSON objects without the key
  \<^verbatim>\<open>task_id\<close>. The handler reports no failure and the set gains the one key
  \<^verbatim>\<open>"unknown"\<close>, whatever the number of such records: the first of them adds the
  sentinel (when it is not there yet), and the later ones find it in the set.
\<close>
theorem missing_task_id_defaults_to_unknown:
  assumes "map (\<lambda>r. loads (message_body_of r)) records = map (\<lambda>d. Inr (PDict d)) ds"
    and "list_all (\<lambda>d. map_of d ''task_id'' = None) ds"
  shows "lambda_handler loads reg \<lparr>Records = Some records\<rparr> =
           (Inr \<lparr>batchItemFailures = []\<rparr>,
            if records = [] then reg else finsert (HStr ''unknown'') reg)"
proof -
  have "process_records loads (reg, [], None) records =
      (Inr [], reg |\<union>| fset_of_list (map (\<lambda>d. HStr ''unknown'') ds))"
  proof (rule process_records_all_ok)
    show "map (\<lambda>r. loads (message_body_of r)) records = map Inr (map PDict ds)"
      using assms(1) by simp
    show "map (\<lambda>td. py_get td ''task_id'' (PStr ''unknown'')) (map PDict ds) =
        map Inr (map (\<lambda>d. PStr ''unknown'') ds)"
      using assms(2) by (induction ds) simp_all
    show "map set_key (map (\<lambda>d. PStr ''unknown'') ds) = map Inr (map (\<lambda>d. HStr ''unknown'') ds)"
      by simp
  qed
  moreover have "length ds = length records"
    using assms(1) by (metis length_map)
  then have "reg |\<union>| fset_of_list (map (\<lambda>d. HStr ''unknown'') ds) =
      (if records = [] then reg else finsert (HStr ''unknown'') reg)"
    by (cases ds) (auto simp: fset_of_list_elem)
  ultimately show ?thesis
    by (simp add: lambda_handler_records)
qed

theorem missing_task_id_defaults_to_unknown_witness:
  "map (\<lambda>r. loads_example (message_body_of r)) [record_no_id, record_no_id] =
     map (\<lambda>d. Inr (PDict d)) [[(''title'', PStr ''Test Task'')], [(''title'', PStr ''Test Task'')]]
   \<and> list_all (\<lambda>d. map_of d ''task_id'' = None)
        [[(''title'', PStr ''Test Task'')], [(''title'', PStr ''Test Task'')]]
   \<and> lambda_handler loads_example {||} \<lparr>Records = Some [record_no_id, record_no_id]\<rparr> =
       (Inr \<lparr>batchItemFailures = []\<rparr>, {|HStr ''unknown''|})"
proof -
  have h1: "map (\<lambda>r. loads_example (message_body_of r)) [record_no_id, record_no_id] =
     map (\<lambda>d. Inr (PDict d)) [[(''title'', PStr ''Test Task'')], [(''title'', PStr ''Test Task'')]]"
    by (simp add: body_no_id)
  have h2: "list_all (\<lambda>d. map_of d ''task_id'' = None)
        [[(''title'', PStr ''Test Task'')], [(''title'', PStr ''Test Task'')]]"
    by simp
  show ?thesis
    using missing_task_id_defaults_to_unknown [of loads_example, OF h1 h2, of "{||}"] h1 h2
    by simp
qed

section \<open>Claims about the API\<close>

lemma validate_blank_title:
  "TaskCreate_validate parse data_blank_title =
     Inr \<lparr>title = [], description = ''Test Description'', priority = ''high'', due_date = None\<rparr>"
  by (simp add: TaskCreate_validate_def data_blank_title_def title_field_def description_field_def
      priority_field_def due_date_field_def constrained_str_def sanitize_string_def strip_def
      py_isspace_def)

text \<open>
  Claim C4 says that a title or description that is empty after stripping is rejected
  and that a stored title or description is never empty. The code does otherwise on a
  title of one space: the title passes \<^verbatim>\<open>min_length=1\<close>, which is checked on the
  value as received, and is stripped afterwards; so the request is accepted, the
  stored title is the empty string, and the endpoint answers 201 with that title.
\<close>
theorem blank_title_is_stored_empty:
  "TaskCreate_validate parse data_blank_title =
     Inr \<lparr>title = [], description = ''Test Description'', priority = ''high'', due_date = None\<rparr>
   \<and> fst (post_tasks (env_example sent_example) data_blank_title) =
       \<lparr>status_code = 201,
        content = PDict
          [(''task_id'', PStr ''550e8400-e29b-41d4-a716-446655440000''),
           (''title'', PStr []),
           (''description'', PStr ''Test Description''),
           (''priority'', PStr ''high''),
           (''due_date'', PNone),
           (''created_at'', PStr ''2026-01-10T12:00:00+00:00''),
           (''status'', PStr ''queued'')]\<rparr>"
  by (simp add: validate_blank_title post_tasks_def create_task_def env_example_def
      sent_example_def opt_str_def Let_def)

lemma constrained_str_Inr:
  "constrained_str lo hi name data = Inr s \<longleftrightarrow>
     map_of data name = Some (PStr s) \<and> lo \<le> length s \<and> length s \<le> hi"
  by (auto simp: constrained_str_def split: option.splits pyval.splits if_splits)

lemma title_field_stripped:
  assumes "title_field data = Inr t"
  shows "\<exists>s. map_of data ''title'' = Some (PStr s) \<and> s \<noteq> [] \<and> length s \<le> 200 \<and> t = strip s"
proof -
  from assms obtain s where c: "constrained_str 1 200 ''title'' data = Inr s"
    and t: "t = sanitize_string s"
    by (cases "constrained_str 1 200 ''title'' data") (auto simp: title_field_def)
  from c have "map_of data ''title'' = Some (PStr s)" "1 \<le> length s" "length s \<le> 200"
    by (simp_all only: constrained_str_Inr)
  then show ?thesis using t by (auto simp: sanitize_string_def)
qed

lemma description_field_stripped:
  assumes "description_field data = Inr t"
  shows "\<exists>s. map_of data ''description'' = Some (PStr s) \<and> s \<noteq> [] \<and> length s \<le> 2000 \<and> t = strip s"
proof -
  from assms obtain s where c: "constrained_str 1 2000 ''description'' data = Inr s"
    and t: "t = sanitize_string s"
    by (cases "constrained_str 1 2000 ''description'' data") (auto simp: description_field_def)
  from c have "map_of data ''description'' = Some (PStr s)" "1 \<le> length s" "length s \<le> 2000"
    by (simp_all only: constrained_str_Inr)
  then show ?thesis using t by (auto simp: sanitize_string_def)
qed

lemma validate_Inr_iff:
  "TaskCreate_validate parse data = Inr task \<longleftrightarrow>
     title_field data = Inr (title task) \<and>
     description_field data = Inr (description task) \<and>
     priority_field data = Inr (priority task) \<and>
     due_date_field parse data = Inr (due_date task)"
  by (cases task) (auto simp: TaskCreate_validate_def split: sum.splits)

text \<open>
  What does hold of an accepted request: the stored title and description are the
  submitted strings, non-empty and within the length bound as submitted, stripped.
\<close>

lemma accepted_fields_are_stripped:
  assumes "TaskCreate_validate parse data = Inr task"
  shows "\<exists>t d. map_of data ''title'' = Some (PStr t) \<and> title task = strip t \<and>
               map_of data ''description'' = Some (PStr d) \<and> description task = strip d"
  using assms title_field_stripped [of data "title task"]
    description_field_stripped [of data "description task"]
  by (auto simp: validate_Inr_iff)

text \<open>The endpoint on a request that passes validation, and on one that does not.\<close>

lemma post_tasks_valid:
  assumes "TaskCreate_validate (fromisoformat env) data = Inr task"
  shows "post_tasks env data =
     (case create_task env task of
        (Inr task_response, sent, logs) \<Rightarrow>
          (\<lparr>status_code = 201, content = PDict task_response\<rparr>, sent, logs)
      | (Inl exc, sent, logs) \<Rightarrow> (http_exception_handler exc, sent, logs))"
  using assms by (simp add: post_tasks_def)

lemma post_tasks_invalid:
  assumes "TaskCreate_validate (fromisoformat env) data = Inl errors"
  shows "post_tasks env data =
     (case validation_exception_handler errors of
        Inl e \<Rightarrow> (internal_server_error, [], [])
      | Inr response \<Rightarrow> (response, [], []))"
  using assms by (simp add: post_tasks_def)

lemma create_task_client_error:
  assumes "send_message env = (\<lambda>message. ClientError error str_e)"
  shows "\<exists>message creating.
     create_task env task =
       (Inl (HTTPException 500 (''Failed to queue task: '' @
            str_get (case error of None \<Rightarrow> [] | Some d \<Rightarrow> d) ''Message'' str_e)),
        [message],
        [creating,
         \<lparr>levelname = ''ERROR'', msg = ''Failed to send message to SQS'',
          extra = [(''task_id'', PStr (uuid4 env)),
                   (''error_code'', PStr (str_get (case error of None \<Rightarrow> [] | Some d \<Rightarrow> d) ''Code'' ''Unknown'')),
                   (''error_message'', PStr (str_get (case error of None \<Rightarrow> [] | Some d \<Rightarrow> d) ''Message'' str_e))]\<rparr>])"
  using assms by (simp add: create_task_def Let_def)

lemma create_task_other_exception:
  assumes "send_message env = (\<lambda>message. OtherException type_name str_e)"
  shows "\<exists>message creating.
     create_task env task =
       (Inl (HTTPException 500 ''An unexpected error occurred while creating the task''),
        [message],
        [creating,
         \<lparr>levelname = ''ERROR'', msg = ''Unexpected error creating task'',
          extra = [(''task_id'', PStr (uuid4 env)),
                   (''error'', PStr str_e),
                   (''error_type'', PStr type_name)]\<rparr>])"
  using assms by (simp add: create_task_def Let_def)

lemma create_task_sent:
  assumes "send_message env = (\<lambda>message. Sent response)"
  shows "\<exists>task_response message logs.
     create_task env task = (Inr task_response, [message], logs)"
  using assms by (simp add: create_task_def Let_def)

lemma create_task_status:
  "create_task env task = (r, sent, logs) \<Longrightarrow>
   length sent = 1 \<and> (case r of Inl (HTTPException code detail) \<Rightarrow> code = 500 | Inr resp \<Rightarrow> True)"
  by (auto simp: create_task_def Let_def split: send_result.splits)

lemma post_tasks_accepted:
  assumes "TaskCreate_validate (fromisoformat env) data = Inr task"
  shows "(status_code (fst (post_tasks env data)) = 201 \<or>
          status_code (fst (post_tasks env data)) = 500) \<and>
         length (fst (snd (post_tasks env data))) = 1"
proof -
  obtain r sent logs where c: "create_task env task = (r, sent, logs)"
    by (cases "create_task env task")
  from create_task_status [OF c] show ?thesis
    using c by (cases r) (auto simp: post_tasks_valid [OF assms] split: http_exception.splits)
qed

lemma validate_data_example:
  "fromisoformat_example (replace_Z due) \<Longrightarrow>
   TaskCreate_validate fromisoformat_example (data_example due) =
     Inr \<lparr>title = ''Test Task'', description = ''Test task description for unit testing'',
          priority = ''high'', due_date = Some due\<rparr>"
  by (simp add: TaskCreate_validate_def data_example_def title_field_def description_field_def
      priority_field_def due_date_field_def constrained_str_def
      sanitize_string_def strip_def py_isspace_def validate_due_date_def)

lemma replace_Z_example: "replace_Z ''2026-01-15T12:00:00Z'' = ''2026-01-15T12:00:00+00:00''"
  by (simp add: replace_Z_def)

lemma parses_Z_example: "fromisoformat_example (replace_Z ''2026-01-15T12:00:00Z'')"
  by (simp add: replace_Z_example fromisoformat_example_def)

text \<open>
  Claim C6, as stated, fails: when the queue client raises \<^verbatim>\<open>ClientError\<close>, the
  message of the 500 response is \<^verbatim>\<open>"Failed to queue task: "\<close> followed by the
  queue's own error message. Here the queue refuses the call with an access-denied
  error, and the response body carries the text of that error, resource name included.
\<close>
theorem client_error_message_in_response:
  "fst (post_tasks (env_example access_denied) (data_example ''2026-01-15T12:00:00Z'')) =
     \<lparr>status_code = 500,
      content = PDict
        [(''error'', PStr ''HTTP Error''),
         (''message'', PStr ''Failed to queue task: Access to the resource https://sqs.us-east-1.amazonaws.com/ is denied.'')]\<rparr>"
proof -
  have v: "TaskCreate_validate (fromisoformat (env_example access_denied))
      (data_example ''2026-01-15T12:00:00Z'') =
     Inr \<lparr>title = ''Test Task'', description = ''Test task description for unit testing'',
          priority = ''high'', due_date = Some ''2026-01-15T12:00:00Z''\<rparr>"
    using validate_data_example [OF parses_Z_example] by (simp add: env_example_def)
  show ?thesis
    by (subst post_tasks_valid [OF v])
       (simp add: create_task_def Let_def env_example_def access_denied_def str_get_def)
qed

text \<open>
  Claim C6, amended. For every request that passes validation, whatever the queue
  client does on the call. When it raises \<^verbatim>\<open>ClientError\<close>, the response is 500 with
  error category \<^verbatim>\<open>"HTTP Error"\<close> and the message \<^verbatim>\<open>"Failed to queue task: "\<close>
  followed by the \<^verbatim>\<open>Message\<close> entry of the error, or by the \<^verbatim>\<open>str\<close> of the exception
  when the error has none; a record with the error code and that message is logged.
  When it raises any other exception, the response is 500 with the fixed message
  \<^verbatim>\<open>"An unexpected error occurred while creating the task"\<close>, and the text and the
  type name of the exception are logged. When the call returns, the response is 201.
\<close>
theorem queue_error_response:
  assumes "TaskCreate_validate (fromisoformat env) data = Inr task"
    and "send_message env = (\<lambda>message. result)"
  shows "case result of
           Sent response \<Rightarrow> status_code (fst (post_tasks env data)) = 201
         | ClientError error str_e \<Rightarrow>
             fst (post_tasks env data) =
               \<lparr>status_code = 500,
                content = PDict
                  [(''error'', PStr ''HTTP Error''),
                   (''message'', PStr (''Failed to queue task: '' @
                      str_get (case error of None \<Rightarrow> [] | Some d \<Rightarrow> d) ''Message'' str_e))]\<rparr>
             \<and> \<lparr>levelname = ''ERROR'', msg = ''Failed to send message to SQS'',
                 extra = [(''task_id'', PStr (uuid4 env)),
                          (''error_code'', PStr (str_get (case error of None \<Rightarrow> [] | Some d \<Rightarrow> d) ''Code'' ''Unknown'')),
                          (''error_message'', PStr (str_get (case error of None \<Rightarrow> [] | Some d \<Rightarrow> d) ''Message'' str_e))]\<rparr>
               \<in> set (snd (snd (post_tasks env data)))
         | OtherException type_name str_e \<Rightarrow>
             fst (post_tasks env data) =
               \<lparr>status_code = 500,
                content = PDict
                  [(''error'', PStr ''HTTP Error''),
                   (''message'', PStr ''An unexpected error occurred while creating the task'')]\<rparr>
             \<and> \<lparr>levelname = ''ERROR'', msg = ''Unexpected error creating task'',
                 extra = [(''task_id'', PStr (uuid4 env)),
                          (''error'', PStr str_e),
                          (''error_type'', PStr type_name)]\<rparr>
               \<in> set (snd (snd (post_tasks env data)))"
proof (cases result)
  case (Sent response)
  with create_task_sent [of env response task] assms show ?thesis
    by (auto simp: post_tasks_valid)
next
  case (ClientError error str_e)
  with create_task_client_error [of env error str_e task] assms show ?thesis
    by (auto simp: post_tasks_valid)
next
  case (OtherException type_name str_e)
  with create_task_other_exception [of env type_name str_e task] assms show ?thesis
    by (auto simp: post_tasks_valid)
qed

theorem queue_error_response_witness:
  "TaskCreate_validate (fromisoformat (env_example access_denied))
      (data_example ''2026-01-15T12:00:00Z'') =
     Inr \<lparr>title = ''Test Task'', description = ''Test task description for unit testing'',
          priority = ''high'', due_date = Some ''2026-01-15T12:00:00Z''\<rparr>
   \<and> fst (post_tasks (env_example access_denied) (data_example ''2026-01-15T12:00:00Z'')) =
       \<lparr>status_code = 500,
        content = PDict
          [(''error'', PStr ''HTTP Error''),
           (''message'', PStr ''Failed to queue task: Access to the resource https://sqs.us-east-1.amazonaws.com/ is denied.'')]\<rparr>
   \<and> fst (post_tasks (env_example other_exception) (data_example ''2026-01-15T12:00:00Z'')) =
       \<lparr>status_code = 500,
        content = PDict
          [(''error'', PStr ''HTTP Error''),
           (''message'', PStr ''An unexpected error occurred while creating the task'')]\<rparr>
   \<and> status_code (fst (post_tasks (env_example sent_example)
         (data_example ''2026-01-15T12:00:00Z''))) = 201"
proof -
  have v: "\<And>result. TaskCreate_validate (fromisoformat (env_example result))
      (data_example ''2026-01-15T12:00:00Z'') =
     Inr \<lparr>title = ''Test Task'', description = ''Test task description for unit testing'',
          priority = ''high'', due_date = Some ''2026-01-15T12:00:00Z''\<rparr>"
    using validate_data_example [OF parses_Z_example] by (simp add: env_example_def)
  have s: "\<And>result. send_message (env_example result) = (\<lambda>message. result)"
    by (simp add: env_example_def)
  show ?thesis
    using queue_error_response [OF v s, of access_denied]
      queue_error_response [OF v s, of other_exception]
      queue_error_response [OF v s, of sent_example] v [of access_denied]
    by (simp add: access_denied_def other_exception_def sent_example_def str_get_def)
qed

text \<open>
  The replacement of \<^verbatim>\<open>Z\<close>, the field \<^verbatim>\<open>due_date\<close> on a string, and the rendering
  of an error that holds an exception.
\<close>

lemma replace_Z_append: "replace_Z (xs @ ys) = replace_Z xs @ replace_Z ys"
  by (simp add: replace_Z_def)

lemma replace_Z_id: "CHR ''Z'' \<notin> set s \<Longrightarrow> replace_Z s = s"
  by (induction s) (auto simp: replace_Z_def)

lemma replace_Z_suffix: "CHR ''Z'' \<notin> set s \<Longrightarrow> replace_Z (s @ ''Z'') = s @ ''+00:00''"
  by (simp add: replace_Z_append replace_Z_id) (simp add: replace_Z_def)

lemma due_date_field_str:
  assumes "map_of data ''due_date'' = Some (PStr d)"
  shows "due_date_field parse data =
     (if parse (replace_Z d) then Inr (Some d)
      else Inl (field_error ''due_date'' ''value_error'' (PStr d) (Some ValueError)))"
  using assms by (simp add: due_date_field_def validate_due_date_def)

lemma render_errors_ctx:
  "e \<in> set es \<Longrightarrow> ctx_error e \<noteq> None \<Longrightarrow> \<exists>x. render_errors es = Inl x"
  by (induction es) (auto split: sum.splits)

lemma due_date_failure_rejects:
  assumes "due_date_field parse data = Inl e"
  shows "\<exists>errors. TaskCreate_validate parse data = Inl errors \<and> e \<in> set errors"
  using assms by (auto simp: TaskCreate_validate_def errors_of_def split: sum.splits)

text \<open>
  Claim C8 says that a request whose \<^verbatim>\<open>due_date\<close> fails date-time parsing is rejected
  with a validation error. The code does otherwise. Parsing is what the validator
  does: \<^verbatim>\<open>datetime.fromisoformat\<close> on the string with every \<^verbatim>\<open>Z\<close> replaced by
  \<^verbatim>\<open>+00:00\<close>. When it fails, the \<^verbatim>\<open>ValueError\<close> of the validator is kept in the error
  that Pydantic reports, the handler for validation errors hands it to
  \<^verbatim>\<open>JSONResponse\<close>, whose rendering raises, and the answer is 500 with the text
  \<^verbatim>\<open>Internal Server Error\<close>, whatever the other fields are. The queue client is not
  called.
\<close>
theorem unparseable_due_date_is_server_error:
  assumes "map_of data ''due_date'' = Some (PStr d)"
    and "\<not> fromisoformat env (replace_Z d)"
  shows "post_tasks env data = (internal_server_error, [], [])
       \<and> status_code internal_server_error = 500"
proof -
  let ?e = "field_error ''due_date'' ''value_error'' (PStr d) (Some ValueError)"
  have "due_date_field (fromisoformat env) data = Inl ?e"
    using assms by (simp add: due_date_field_str)
  then obtain errors where v: "TaskCreate_validate (fromisoformat env) data = Inl errors"
    and e: "?e \<in> set errors"
    using due_date_failure_rejects by blast
  have "ctx_error ?e \<noteq> None" by (simp add: field_error_def)
  with e obtain x where "render_errors errors = Inl x"
    using render_errors_ctx by blast
  then have "validation_exception_handler errors = Inl x"
    by (simp add: validation_exception_handler_def)
  then show ?thesis
    by (simp add: post_tasks_invalid [OF v] internal_server_error_def)
qed

theorem unparseable_due_date_is_server_error_witness:
  "map_of (data_example ''not-a-date'') ''due_date'' = Some (PStr ''not-a-date'')
   \<and> \<not> fromisoformat (env_example sent_example) (replace_Z ''not-a-date'')
   \<and> post_tasks (env_example sent_example) (data_example ''not-a-date'') =
       (\<lparr>status_code = 500, content = PStr ''Internal Server Error''\<rparr>, [], [])"
proof -
  have h1: "map_of (data_example ''not-a-date'') ''due_date'' = Some (PStr ''not-a-date'')"
    by (simp add: data_example_def)
  have h2: "\<not> fromisoformat (env_example sent_example) (replace_Z ''not-a-date'')"
    by (simp add: env_example_def fromisoformat_example_def replace_Z_def)
  show ?thesis
    using unparseable_due_date_is_server_error [OF h1 h2] h1 h2
    by (simp add: internal_server_error_def)
qed

text \<open>
  What does hold: with the other fields valid, a \<^verbatim>\<open>due_date\<close> that parses is accepted
  and the queue client is called once; a date-time followed by \<^verbatim>\<open>Z\<close> is parsed as
  the same date-time with the offset \<^verbatim>\<open>+00:00\<close> (\<open>replace_Z_suffix\<close>) and one
  without \<^verbatim>\<open>Z\<close> as it is (\<open>replace_Z_id\<close>); and a validation error that holds no
  exception is answered with 400, as for an empty title.
\<close>

lemma parseable_due_date_accepted:
  assumes "map_of data ''due_date'' = Some (PStr d)"
    and "fromisoformat env (replace_Z d)"
    and "title_field data = Inr t"
    and "description_field data = Inr de"
    and "priority_field data = Inr p"
  shows "(status_code (fst (post_tasks env data)) = 201 \<or>
          status_code (fst (post_tasks env data)) = 500) \<and>
         length (fst (snd (post_tasks env data))) = 1"
proof -
  have "TaskCreate_validate (fromisoformat env) data =
      Inr \<lparr>title = t, description = de, priority = p, due_date = Some d\<rparr>"
    using assms by (simp add: TaskCreate_validate_def due_date_field_str)
  then show ?thesis by (rule post_tasks_accepted)
qed

lemma empty_title_is_rejected:
  "status_code (fst (post_tasks env
     [(''title'', PStr []), (''description'', PStr ''Test Description''),
      (''priority'', PStr ''high'')])) = 400
   \<and> fst (snd (post_tasks env
     [(''title'', PStr []), (''description'', PStr ''Test Description''),
      (''priority'', PStr ''high'')])) = []"
  by (simp add: post_tasks_def TaskCreate_validate_def title_field_def description_field_def
      priority_field_def due_date_field_def constrained_str_def sanitize_string_def strip_def
      py_isspace_def errors_of_def field_error_def validation_exception_handler_def
      error_json_def)

text \<open>
  Claim C9, as stated, fails: a header that is present with a wrong value does not
  always yield the \<^verbatim>\<open>"Invalid API Key."\<close> response. With the check enabled, a
  request to \<^verbatim>\<open>/tasks\<close> whose \<^verbatim>\<open>x-api-key\<close> header is present and empty gets the
  \<^verbatim>\<open>"Missing API Key"\<close> response, which differs from the other one.
\<close>
theorem empty_api_key_is_reported_missing:
  "validate_api_key True ''test-api-key-12345'' created_example
     (tasks_request [(''x-api-key'', [])]) = forbidden_missing
   \<and> forbidden_missing \<noteq> forbidden_invalid
   \<and> map_of (headers (tasks_request [(''x-api-key'', [])])) ''x-api-key'' = Some []"
  by (simp add: validate_api_key_def tasks_request_def forbidden_missing_def forbidden_invalid_def)

text \<open>
  Claim C9, amended. With the check enabled, for every request to a path other than
  \<^verbatim>\<open>/health\<close>, \<^verbatim>\<open>/docs\<close>, \<^verbatim>\<open>/redoc\<close> and \<^verbatim>\<open>/openapi.json\<close>: an absent or empty
  \<^verbatim>\<open>x-api-key\<close> header yields 403 with
  \<^verbatim>\<open>{"error": "Forbidden", "message": "Missing API Key. Include x-api-key header."}\<close>;
  a non-empty value other than the configured key yields 403 with a different
  message; a non-empty value equal to the configured key passes the request on to the
  application. With the check disabled every request is passed on, and requests to
  the four exempt paths are passed on whatever the configuration.
\<close>
theorem api_key_gate:
  assumes "path request \<notin> set [''/health'', ''/docs'', ''/redoc'', ''/openapi.json'']"
    and "path exempt \<in> set [''/health'', ''/docs'', ''/redoc'', ''/openapi.json'']"
  shows "validate_api_key True key call_next request =
           (case map_of (headers request) ''x-api-key'' of
              None \<Rightarrow> forbidden_missing
            | Some v \<Rightarrow>
                if v = [] then forbidden_missing
                else if v = key then call_next request
                else forbidden_invalid)
       \<and> validate_api_key False key call_next request = call_next request
       \<and> validate_api_key enabled key call_next exempt = call_next exempt
       \<and> forbidden_missing \<noteq> forbidden_invalid
       \<and> forbidden_missing =
           \<lparr>status_code = 403,
            content = PDict [(''error'', PStr ''Forbidden''),
                             (''message'', PStr ''Missing API Key. Include x-api-key header.'')]\<rparr>
       \<and> status_code forbidden_invalid = 403"
  using assms
  by (auto simp: validate_api_key_def forbidden_missing_def forbidden_invalid_def Let_def
      split: option.splits)

theorem api_key_gate_witness:
  "path (tasks_request [(''x-api-key'', ''test-api-key-12345'')]) \<notin>
     set [''/health'', ''/docs'', ''/redoc'', ''/openapi.json'']
   \<and> path \<lparr>path = ''/health'', http_method = ''GET'', headers = []\<rparr> \<in>
     set [''/health'', ''/docs'', ''/redoc'', ''/openapi.json'']
   \<and> validate_api_key True ''test-api-key-12345'' created_example
       (tasks_request [(''x-api-key'', ''test-api-key-12345'')]) =
       \<lparr>status_code = 201, content = PDict [(''status'', PStr ''queued'')]\<rparr>
   \<and> validate_api_key True ''test-api-key-12345'' created_example
       (tasks_request [(''x-api-key'', ''invalid-key-12345'')]) = forbidden_invalid
   \<and> validate_api_key True ''test-api-key-12345'' created_example (tasks_request []) =
       forbidden_missing
   \<and> validate_api_key True ''test-api-key-12345'' created_example
       \<lparr>path = ''/health'', http_method = ''GET'', headers = []\<rparr> =
       \<lparr>status_code = 201, content = PDict [(''status'', PStr ''queued'')]\<rparr>"
proof -
  have h1: "\<And>hs. path (tasks_request hs) \<notin> set [''/health'', ''/docs'', ''/redoc'', ''/openapi.json'']"
    by (simp add: tasks_request_def)
  have h2: "path \<lparr>path = ''/health'', http_method = ''GET'', headers = []\<rparr> \<in>
     set [''/health'', ''/docs'', ''/redoc'', ''/openapi.json'']"
    by simp
  let ?health = "\<lparr>path = ''/health'', http_method = ''GET'', headers = []\<rparr>"
  show ?thesis
    using api_key_gate [of "tasks_request [(''x-api-key'', ''test-api-key-12345'')]" ?health
        "''test-api-key-12345''" created_example True]
      api_key_gate [of "tasks_request [(''x-api-key'', ''invalid-key-12345'')]" ?health
        "''test-api-key-12345''" created_example True]
      api_key_gate [of "tasks_request []" ?health "''test-api-key-12345''" created_example True]
      h1 h2
    by (simp add: tasks_request_def created_example_def)
qed

end
